theory Spec2Isabelle
  imports Main "HOL-Library.Multiset"
begin

section \<open>Python values\<close>

text \<open>
  A Python \<^verbatim>\<open>str\<close> is a sequence of Unicode code points and \<^verbatim>\<open>len\<close> counts code
  points, so a string is a list of code points here (articles are Chinese text; a
  byte-valued \<^typ>\<open>char\<close> cannot hold them). \<open>lit\<close> reads an ASCII literal.
\<close>

type_synonym ustr = "nat list"

definition lit :: "string \<Rightarrow> ustr" where
  "lit s = map of_char s"

text \<open>An exception is its class name (\<^verbatim>\<open>type(e).__name__\<close>) and its text (\<^verbatim>\<open>str(e)\<close>).\<close>

datatype exn = Exn (exn_type: string) (exn_str: ustr)

text \<open>\<^verbatim>\<open>s.startswith(p)\<close> and \<^verbatim>\<open>p in s\<close> (substring).\<close>

definition startswith :: "ustr \<Rightarrow> ustr \<Rightarrow> bool" where
  "startswith s p \<longleftrightarrow> take (length p) s = p"

definition endswith :: "ustr \<Rightarrow> ustr \<Rightarrow> bool" where
  "endswith s p \<longleftrightarrow> length p \<le> length s \<and> drop (length s - length p) s = p"

fun py_in :: "ustr \<Rightarrow> ustr \<Rightarrow> bool" where
  "py_in p [] \<longleftrightarrow> p = []"
| "py_in p (c # cs) \<longleftrightarrow> startswith (c # cs) p \<or> py_in p cs"

text \<open>
  \<^verbatim>\<open>s.strip()\<close> removes the leading and trailing characters for which
  \<^verbatim>\<open>str.isspace\<close> holds.
\<close>

definition isspace :: "nat \<Rightarrow> bool" where
  "isspace c \<longleftrightarrow>
     (0x9 \<le> c \<and> c \<le> 0xD) \<or> (0x1C \<le> c \<and> c \<le> 0x20) \<or> c = 0x85 \<or> c = 0xA0 \<or>
     c = 0x1680 \<or> (0x2000 \<le> c \<and> c \<le> 0x200A) \<or> c = 0x2028 \<or> c = 0x2029 \<or>
     c = 0x202F \<or> c = 0x205F \<or> c = 0x3000"

definition strip :: "ustr \<Rightarrow> ustr" where
  "strip s = rev (dropWhile isspace (rev (dropWhile isspace s)))"

text \<open>\<^verbatim>\<open>str(n)\<close> for a non-negative integer, and the format \<^verbatim>\<open>{n:03d}\<close>.\<close>

fun digits :: "nat \<Rightarrow> nat \<Rightarrow> ustr" where
  "digits 0 n = []"
| "digits (Suc fuel) n =
     (if n < 10 then [48 + n] else digits fuel (n div 10) @ [48 + n mod 10])"

definition str_nat :: "nat \<Rightarrow> ustr" where
  "str_nat n = digits (Suc n) n"

definition str_int :: "int \<Rightarrow> ustr" where
  "str_int i = (if i < 0 then lit ''-'' @ str_nat (nat (- i)) else str_nat (nat i))"

definition fmt_03d :: "nat \<Rightarrow> ustr" where
  "fmt_03d n = replicate (3 - length (str_nat n)) (of_char CHR ''0'') @ str_nat n"

text \<open>
  The library functions the code calls and this development does not open: float
  arithmetic (\<^verbatim>\<open>int / int\<close> for a non-zero divisor, \<^verbatim>\<open>round(x, n)\<close>), the regular
  expression engine (patterns are the source's literals, always with \<^verbatim>\<open>re.DOTALL\<close>
  for \<^verbatim>\<open>findall\<close>), \<^verbatim>\<open>urlparse(url).netloc\<close>, \<^verbatim>\<open>hashlib.md5(s.encode()).hexdigest()\<close> and
  \<^verbatim>\<open>json.loads\<close> (\<open>None\<close> for \<^verbatim>\<open>JSONDecodeError\<close>; a JSON value is a \<open>json\<close>,
  numbers with a fraction left out).
  They are parameters of the model; \<open>'f\<close> is the type of floats. Integers too large for
  a float (\<^verbatim>\<open>OverflowError\<close>) are outside the model: the integers divided are string
  lengths and their sums.
\<close>

datatype json =
  JNull | JBool bool | JInt int | JStr ustr | JList "json list" | JDict "(ustr \<times> json) list"

record 'f pylib =
  float_div :: "int \<Rightarrow> int \<Rightarrow> 'f"
  round_ndigits :: "'f \<Rightarrow> int \<Rightarrow> 'f"
  re_findall :: "string \<Rightarrow> ustr \<Rightarrow> ustr list"
  re_sub :: "string \<Rightarrow> ustr \<Rightarrow> ustr \<Rightarrow> ustr"
  urlparse_netloc :: "ustr \<Rightarrow> exn + ustr"
  md5_hexdigest :: "ustr \<Rightarrow> ustr"
  json_loads :: "ustr \<Rightarrow> json option"

text \<open>\<^verbatim>\<open>a / b\<close> on integers: \<^verbatim>\<open>ZeroDivisionError\<close> when \<open>b\<close> is zero.\<close>

definition py_truediv :: "'f pylib \<Rightarrow> int \<Rightarrow> int \<Rightarrow> exn + 'f" where
  "py_truediv lib a b =
     (if b = 0 then Inl (Exn ''ZeroDivisionError'' (lit ''division by zero''))
      else Inr (float_div lib a b))"

section \<open>server.py: sanitize_path\<close>

text \<open>The character classes \<^verbatim>\<open>[./\\]\<close> and \<^verbatim>\<open>[a-zA-Z0-9_-]\<close> of the two substitutions.\<close>

definition is_path_char :: "nat \<Rightarrow> bool" where
  "is_path_char c \<longleftrightarrow>
     c = of_char CHR ''.'' \<or> c = of_char CHR ''/'' \<or> c = of_char (CHR 0x5C)"

definition is_kept_char :: "nat \<Rightarrow> bool" where
  "is_kept_char c \<longleftrightarrow>
     (of_char CHR ''a'' \<le> c \<and> c \<le> of_char CHR ''z'') \<or>
     (of_char CHR ''A'' \<le> c \<and> c \<le> of_char CHR ''Z'') \<or>
     (of_char CHR ''0'' \<le> c \<and> c \<le> of_char CHR ''9'') \<or>
     c = of_char CHR ''_'' \<or> c = of_char CHR ''-''"

definition sanitize_path :: "ustr \<Rightarrow> ustr" where
  "sanitize_path name =
     (let sanitized = map (\<lambda>c. if is_path_char c then of_char CHR ''_'' else c) name;
          sanitized = filter is_kept_char sanitized
      in if sanitized \<noteq> [] then take 100 sanitized else lit ''unnamed'')"

section \<open>The article record and the pure functions over it\<close>

text \<open>
  One entry of \<^verbatim>\<open>ArticleContent.images\<close>: the dictionary with the keys \<^verbatim>\<open>index\<close>,
  \<^verbatim>\<open>url\<close>, \<^verbatim>\<open>alt\<close> and, once downloaded, \<^verbatim>\<open>local_path\<close>.
\<close>

record image =
  img_index :: nat
  img_url :: ustr
  img_alt :: ustr
  img_local_path :: "ustr option"

text \<open>The dataclass \<^verbatim>\<open>ArticleContent\<close>, the same in both spider modules.\<close>

record article =
  url :: ustr
  title :: ustr
  author :: ustr
  account_name :: ustr
  publish_date :: ustr
  content_html :: ustr
  content_text :: ustr
  images :: "image list"
  word_count :: int
  crawl_timestamp :: ustr

text \<open>The dictionary \<^verbatim>\<open>summarize_article\<close> returns (keys prefixed \<open>s_\<close> where they clash).\<close>

record summary =
  s_title :: ustr
  s_account_name :: ustr
  s_author :: ustr
  s_publish_date :: ustr
  s_word_count :: int
  s_image_count :: nat
  first_300_chars :: ustr
  s_url :: ustr

text \<open>The dictionary \<^verbatim>\<open>analyze_article\<close> returns (keys prefixed \<open>a_\<close> where they clash).\<close>

record 'f analysis =
  a_word_count :: int
  a_char_count :: nat
  a_image_count :: nat
  a_paragraph_count :: nat
  estimated_read_time_minutes :: 'f
  key_phrases :: "ustr list"

subsection \<open>weixin_spider_simple.py: class WeixinSpider\<close>

definition MAX_KEY_PHRASE_LENGTH :: nat where
  "MAX_KEY_PHRASE_LENGTH = 100"

definition READING_SPEED_CPM :: int where
  "READING_SPEED_CPM = 200"

definition analyze_article :: "'f pylib \<Rightarrow> article \<Rightarrow> exn + 'f analysis" where
  "analyze_article lib a =
     (let paragraph_count =
            (if content_html a \<noteq> []
             then length (re_findall lib ''<p[^>]*>.*?</p>'' (content_html a)) else 0)
      in case py_truediv lib (word_count a) READING_SPEED_CPM of
           Inl e \<Rightarrow> Inl e
         | Inr q \<Rightarrow>
             Inr \<lparr> a_word_count = word_count a,
                   a_char_count = length (content_text a),
                   a_image_count = length (images a),
                   a_paragraph_count = paragraph_count,
                   estimated_read_time_minutes = round_ndigits lib q 1,
                   key_phrases =
                     (if content_html a \<noteq> []
                      then take 10
                        (filter (\<lambda>clean. clean \<noteq> [] \<and> length clean < MAX_KEY_PHRASE_LENGTH)
                          (map (\<lambda>m. strip (re_sub lib ''<[^>]+>'' [] m))
                            (re_findall lib ''<strong[^>]*>(.*?)</strong>'' (content_html a))))
                      else []) \<rparr>)"

definition summarize_article :: "article \<Rightarrow> summary" where
  "summarize_article a =
     \<lparr> s_title = title a,
       s_account_name = account_name a,
       s_author = author a,
       s_publish_date = publish_date a,
       s_word_count = word_count a,
       s_image_count = length (images a),
       first_300_chars =
         (if length (content_text a) > 300 then take 300 (content_text a) @ lit ''...''
          else content_text a),
       s_url = url a \<rparr>"

subsection \<open>weixin_spider_agentbrowser.py: class WeixinSpiderAB\<close>

definition AB_MAX_KEY_PHRASE_LENGTH :: nat where
  "AB_MAX_KEY_PHRASE_LENGTH = 100"

definition AB_READING_SPEED_CPM :: int where
  "AB_READING_SPEED_CPM = 200"

definition ab_analyze_article :: "'f pylib \<Rightarrow> article \<Rightarrow> exn + 'f analysis" where
  "ab_analyze_article lib a =
     (let paragraph_count =
            (if content_html a \<noteq> []
             then length (re_findall lib ''<p[^>]*>.*?</p>'' (content_html a)) else 0)
      in case py_truediv lib (word_count a) AB_READING_SPEED_CPM of
           Inl e \<Rightarrow> Inl e
         | Inr q \<Rightarrow>
             Inr \<lparr> a_word_count = word_count a,
                   a_char_count = length (content_text a),
                   a_image_count = length (images a),
                   a_paragraph_count = paragraph_count,
                   estimated_read_time_minutes = round_ndigits lib q 1,
                   key_phrases =
                     (if content_html a \<noteq> []
                      then take 10
                        (filter (\<lambda>clean. clean \<noteq> [] \<and> length clean < AB_MAX_KEY_PHRASE_LENGTH)
                          (map (\<lambda>m. strip (re_sub lib ''<[^>]+>'' [] m))
                            (re_findall lib ''<strong[^>]*>(.*?)</strong>'' (content_html a))))
                      else []) \<rparr>)"

definition ab_summarize_article :: "article \<Rightarrow> summary" where
  "ab_summarize_article a =
     \<lparr> s_title = title a,
       s_account_name = account_name a,
       s_author = author a,
       s_publish_date = publish_date a,
       s_word_count = word_count a,
       s_image_count = length (images a),
       first_300_chars =
         (if length (content_text a) > 300 then take 300 (content_text a) @ lit ''...''
          else content_text a),
       s_url = url a \<rparr>"


section \<open>weixin_spider_simple.py: the Selenium backend\<close>

text \<open>
  What the driver shows after \<^verbatim>\<open>self._driver.get(url)\<close>, as the code queries it. An
  \<^verbatim>\<open>img\<close> element is its \<^verbatim>\<open>get_attribute\<close>: the attribute's value, \<open>None\<close> when the
  element has no such attribute, or the exception the driver raises. The \<^verbatim>\<open>innerHTML\<close>
  of an element that was found is a string. The page is taken to stay as it is while
  one crawl reads it.
\<close>

type_synonym img_elem = "string \<Rightarrow> exn + ustr option"

record content_elem =
  inner_html :: "exn + ustr"
  elem_text :: "exn + ustr"
  find_imgs :: "exn + img_elem list"

record page =
  get_raises :: "exn option"
  wait_raises :: "int \<Rightarrow> exn option"
  css_text :: "string \<Rightarrow> exn + ustr"
  js_content :: "exn + content_elem"

text \<open>
  The loop shared by \<^verbatim>\<open>_extract_title\<close>, \<^verbatim>\<open>_extract_author\<close>, \<^verbatim>\<open>_extract_account_name\<close>
  and \<^verbatim>\<open>_extract_publish_date\<close>: the first selector whose element has non-empty
  stripped text wins; \<^verbatim>\<open>NoSuchElementException\<close> moves on to the next selector, any
  other exception ends the function with the empty string.
\<close>

fun first_text :: "page \<Rightarrow> string list \<Rightarrow> ustr" where
  "first_text p [] = []"
| "first_text p (selector # selectors) =
     (case css_text p selector of
        Inr t \<Rightarrow> (if strip t \<noteq> [] then strip t else first_text p selectors)
      | Inl e \<Rightarrow>
          (if exn_type e = ''NoSuchElementException'' then first_text p selectors else []))"

definition extract_title :: "page \<Rightarrow> ustr" where
  "extract_title p = first_text p [''h1.rich_media_title'', ''#activity-name'', ''h1'']"

definition extract_author :: "page \<Rightarrow> ustr" where
  "extract_author p =
     first_text p [''span.rich_media_meta.rich_media_meta_text'', ''#js_name'', ''.profile_nickname'']"

definition extract_account_name :: "page \<Rightarrow> ustr" where
  "extract_account_name p = first_text p [''#js_name'', ''.profile_nickname'', ''a.weui-wa-hotarea'']"

definition extract_publish_date :: "page \<Rightarrow> ustr" where
  "extract_publish_date p =
     first_text p [''#publish_time'', ''em.rich_media_meta.rich_media_meta_text'',
                   ''.rich_media_meta_list em'']"

definition extract_content_html :: "page \<Rightarrow> ustr" where
  "extract_content_html p =
     (case js_content p of
        Inl e \<Rightarrow> []
      | Inr content_elem \<Rightarrow> (case inner_html content_elem of Inl e \<Rightarrow> [] | Inr h \<Rightarrow> h))"

definition extract_content_text :: "page \<Rightarrow> ustr" where
  "extract_content_text p =
     (case js_content p of
        Inl e \<Rightarrow> []
      | Inr content_elem \<Rightarrow> (case elem_text content_elem of Inl e \<Rightarrow> [] | Inr t \<Rightarrow> strip t))"

text \<open>
  \<^verbatim>\<open>img.get_attribute("data-src") or img.get_attribute("src")\<close>: the second attribute
  is read only when the first is \<^verbatim>\<open>None\<close> or empty.
\<close>

definition resolve_src :: "img_elem \<Rightarrow> exn + ustr option" where
  "resolve_src img =
     (case img ''data-src'' of
        Inl e \<Rightarrow> Inl e
      | Inr d \<Rightarrow> (if d \<noteq> None \<and> d \<noteq> Some [] then Inr d else img ''src''))"

text \<open>
  The loop of \<^verbatim>\<open>_extract_image_urls\<close> from position \<open>i\<close> on. An exception leaves the
  loop and the function returns the entries appended so far, so the rest of the
  elements contributes nothing.
\<close>

fun image_loop :: "nat \<Rightarrow> img_elem list \<Rightarrow> image list" where
  "image_loop i [] = []"
| "image_loop i (img # rest) =
     (case resolve_src img of
        Inl e \<Rightarrow> []
      | Inr None \<Rightarrow> image_loop (Suc i) rest
      | Inr (Some src) \<Rightarrow>
          (if src \<noteq> [] \<and> \<not> startswith src (lit ''data:'')
           then (case img ''alt'' of
                   Inl e \<Rightarrow> []
                 | Inr alt \<Rightarrow>
                     \<lparr> img_index = i, img_url = src,
                       img_alt = (case alt of None \<Rightarrow> [] | Some a \<Rightarrow> a),
                       img_local_path = None \<rparr> # image_loop (Suc i) rest)
           else image_loop (Suc i) rest))"

definition extract_image_urls :: "page \<Rightarrow> image list" where
  "extract_image_urls p =
     (case js_content p of
        Inl e \<Rightarrow> []
      | Inr content_elem \<Rightarrow>
          (case find_imgs content_elem of
             Inl e \<Rightarrow> []
           | Inr img_elements \<Rightarrow> image_loop 0 img_elements))"

text \<open>
  What the process has done to the outside: the singleton \<^verbatim>\<open>WeixinSpider._instance\<close>
  (a spider is whether its \<^verbatim>\<open>_driver\<close> is set), the URLs given to the driver, the
  URLs given to \<^verbatim>\<open>requests.get\<close>, the directories made and the files written.
\<close>

record spider =
  has_driver :: bool

record world =
  spider_instance :: "spider option"
  navigated :: "ustr list"
  fetched :: "ustr list"
  made_dirs :: "ustr list"
  written :: "ustr list"

record response =
  status_code :: int
  content_type_header :: "ustr option"

text \<open>
  How the outside answers, given all that has happened so far: whether starting Chrome
  fails, the page a navigation shows, the answer to an HTTP request, whether making a
  directory or writing a file fails, and the clock.
\<close>

record env =
  init_browser :: "world \<Rightarrow> exn option"
  render :: "world \<Rightarrow> ustr \<Rightarrow> page"
  requests_get :: "world \<Rightarrow> ustr \<Rightarrow> exn + response"
  mkdir :: "world \<Rightarrow> ustr \<Rightarrow> exn option"
  write_file :: "world \<Rightarrow> ustr \<Rightarrow> exn option"
  now_isoformat :: "world \<Rightarrow> ustr"

text \<open>\<^verbatim>\<open>os.path.join(a, b)\<close> (posixpath).\<close>

definition path_join :: "ustr \<Rightarrow> ustr \<Rightarrow> ustr" where
  "path_join a b =
     (if startswith b (lit ''/'') then b
      else if a = [] \<or> endswith a (lit ''/'') then a @ b
      else a @ lit ''/'' @ b)"

definition file_ext :: "ustr \<Rightarrow> ustr" where
  "file_ext content_type =
     (if py_in (lit ''jpeg'') content_type \<or> py_in (lit ''jpg'') content_type then lit ''.jpg''
      else if py_in (lit ''png'') content_type then lit ''.png''
      else if py_in (lit ''gif'') content_type then lit ''.gif''
      else if py_in (lit ''webp'') content_type then lit ''.webp''
      else lit ''.jpg'')"

text \<open>
  One round of the download loop of \<^verbatim>\<open>_extract_and_download_images\<close>: any exception
  (of the request or of writing the file) is logged and the entry stays as it was.
\<close>

definition download_one :: "env \<Rightarrow> ustr \<Rightarrow> world \<Rightarrow> image \<Rightarrow> image \<times> world" where
  "download_one E output_dir w img =
     (let w1 = w\<lparr>fetched := fetched w @ [img_url img]\<rparr> in
      case requests_get E w (img_url img) of
        Inl e \<Rightarrow> (img, w1)
      | Inr resp \<Rightarrow>
          (if status_code resp = 200
           then (let content_type = (case content_type_header resp of None \<Rightarrow> [] | Some c \<Rightarrow> c);
                     filename = lit ''image_'' @ fmt_03d (img_index img) @ file_ext content_type;
                     filepath = path_join output_dir filename
                 in case write_file E w1 filepath of
                      Some e \<Rightarrow> (img, w1)
                    | None \<Rightarrow>
                        (img\<lparr>img_local_path := Some filepath\<rparr>,
                         w1\<lparr>written := written w1 @ [filepath]\<rparr>))
           else (img, w1)))"

fun download_loop :: "env \<Rightarrow> ustr \<Rightarrow> world \<Rightarrow> image list \<Rightarrow> image list \<times> world" where
  "download_loop E output_dir w [] = ([], w)"
| "download_loop E output_dir w (img # rest) =
     (case download_one E output_dir w img of
        (img', w1) \<Rightarrow>
          (case download_loop E output_dir w1 rest of
             (rest', w2) \<Rightarrow> (img' # rest', w2)))"

definition extract_and_download_images ::
  "'f pylib \<Rightarrow> env \<Rightarrow> world \<Rightarrow> page \<Rightarrow> ustr \<Rightarrow> ustr option \<Rightarrow> (exn + image list) \<times> world" where
  "extract_and_download_images lib E w p article_url output_dir =
     (let images = extract_image_urls p in
      if images = [] then (Inr images, w)
      else
        (let output_dir =
               (case output_dir of
                  None \<Rightarrow> lit ''./downloads/'' @ take 8 (md5_hexdigest lib article_url)
                | Some d \<Rightarrow> d)
         in case mkdir E w output_dir of
              Some e \<Rightarrow> (Inl e, w)
            | None \<Rightarrow>
                (case download_loop E output_dir (w\<lparr>made_dirs := made_dirs w @ [output_dir]\<rparr>) images of
                   (images', w') \<Rightarrow> (Inr images', w'))))"

definition is_valid_weixin_url :: "'f pylib \<Rightarrow> ustr \<Rightarrow> exn + bool" where
  "is_valid_weixin_url lib u =
     (case urlparse_netloc lib u of
        Inl e \<Rightarrow> Inl e
      | Inr netloc \<Rightarrow> Inr (netloc = lit ''mp.weixin.qq.com'' \<or> netloc = lit ''weixin.qq.com''))"

text \<open>
  \<^verbatim>\<open>WeixinSpider.crawl\<close>. Every exception inside the \<^verbatim>\<open>try\<close> is logged and raised
  again, so it is the result. A spider whose browser never started has
  \<^verbatim>\<open>_driver = None\<close>, and \<^verbatim>\<open>self._driver.get\<close> raises \<^verbatim>\<open>AttributeError\<close>.
\<close>

definition no_driver_error :: exn where
  "no_driver_error =
     Exn ''AttributeError''
       ([39] @ lit ''NoneType'' @ [39] @ lit '' object has no attribute '' @ [39] @ lit ''get'' @ [39])"

definition crawl ::
  "'f pylib \<Rightarrow> env \<Rightarrow> spider \<Rightarrow> world \<Rightarrow> ustr \<Rightarrow> bool \<Rightarrow> ustr option \<Rightarrow> int \<Rightarrow> (exn + article) \<times> world" where
  "crawl lib E self w u download_images output_dir wait_time =
     (case is_valid_weixin_url lib u of
        Inl e \<Rightarrow> (Inl e, w)
      | Inr False \<Rightarrow> (Inl (Exn ''ValueError'' (lit ''Invalid WeChat article URL: '' @ u)), w)
      | Inr True \<Rightarrow>
          (if \<not> has_driver self then (Inl no_driver_error, w)
           else
             (let p = render E w u;
                  w1 = w\<lparr>navigated := navigated w @ [u]\<rparr>
              in case get_raises p of
                   Some e \<Rightarrow> (Inl e, w1)
                 | None \<Rightarrow>
                     (case wait_raises p wait_time of
                        Some e \<Rightarrow> (Inl e, w1)
                      | None \<Rightarrow>
                          (let a = \<lparr> url = u,
                                     title = extract_title p,
                                     author = extract_author p,
                                     account_name = extract_account_name p,
                                     publish_date = extract_publish_date p,
                                     content_html = extract_content_html p,
                                     content_text = extract_content_text p,
                                     images = [],
                                     word_count = int (length (extract_content_text p)),
                                     crawl_timestamp = now_isoformat E w \<rparr>
                           in if download_images
                              then (case extract_and_download_images lib E w1 p u output_dir of
                                      (Inl e, w2) \<Rightarrow> (Inl e, w2)
                                    | (Inr imgs, w2) \<Rightarrow> (Inr (a\<lparr>images := imgs\<rparr>), w2))
                              else (Inr (a\<lparr>images := extract_image_urls p\<rparr>), w1))))))"


section \<open>weixin_spider_agentbrowser.py: the agent-browser backend\<close>

text \<open>
  \<^verbatim>\<open>_run_cmd\<close> runs the agent-browser binary and always returns a pair
  \<^verbatim>\<open>(success, output)\<close>: a timeout and every other exception of the subprocess are
  caught inside it. It is the step function of the backend, whose state \<open>'s\<close> is left
  open; the arguments and the timeout in seconds are what the code passes.
\<close>

record 's ab_env =
  run_cmd :: "'s \<Rightarrow> ustr list \<Rightarrow> int \<Rightarrow> (bool \<times> ustr) \<times> 's"
  path_exists :: "'s \<Rightarrow> ustr \<Rightarrow> bool"
  ab_now_isoformat :: "'s \<Rightarrow> ustr"
  BROWSER_STATE_FILE :: ustr

record ab_spider =
  state_loaded :: bool

text \<open>Sequencing of steps that may raise: the first exception is the result.\<close>

definition then_do ::
  "(exn + 'a) \<times> 's \<Rightarrow> ('a \<Rightarrow> 's \<Rightarrow> (exn + 'b) \<times> 's) \<Rightarrow> (exn + 'b) \<times> 's" where
  "then_do m f = (case m of (Inl e, s) \<Rightarrow> (Inl e, s) | (Inr x, s) \<Rightarrow> f x s)"

text \<open>\<^verbatim>\<open>output.split('\n')\<close>.\<close>

fun split_lines :: "ustr \<Rightarrow> ustr list" where
  "split_lines [] = [[]]"
| "split_lines (c # cs) =
     (if c = 10 then [] # split_lines cs
      else (case split_lines cs of [] \<Rightarrow> [[c]] | l # ls \<Rightarrow> (c # l) # ls))"

text \<open>
  The \<^verbatim>\<open>{success, data, error}\<close> wrapper: a dictionary with the key \<^verbatim>\<open>data\<close> stands
  for its value.
\<close>

definition unwrap_data :: "json \<Rightarrow> json" where
  "unwrap_data parsed =
     (case parsed of
        JDict kvs \<Rightarrow> (case map_of kvs (lit ''data'') of Some d \<Rightarrow> d | None \<Rightarrow> parsed)
      | _ \<Rightarrow> parsed)"

fun parse_lines :: "'f pylib \<Rightarrow> ustr list \<Rightarrow> json option" where
  "parse_lines lib [] = None"
| "parse_lines lib (line # lines) =
     (if startswith (strip line) (lit ''{'') \<or> startswith (strip line) (lit ''['')
      then (case json_loads lib line of
              Some parsed \<Rightarrow> Some (unwrap_data parsed)
            | None \<Rightarrow> parse_lines lib lines)
      else parse_lines lib lines)"

definition parse_json :: "'f pylib \<Rightarrow> ustr \<Rightarrow> json" where
  "parse_json lib output =
     (case json_loads lib output of
        Some parsed \<Rightarrow> unwrap_data parsed
      | None \<Rightarrow>
          (case parse_lines lib (split_lines output) of
             Some parsed \<Rightarrow> parsed
           | None \<Rightarrow> JStr output))"

text \<open>A method of \<^verbatim>\<open>str\<close> called on a value that is not a string.\<close>

fun py_type_name :: "json \<Rightarrow> string" where
  "py_type_name JNull = ''NoneType''"
| "py_type_name (JBool b) = ''bool''"
| "py_type_name (JInt n) = ''int''"
| "py_type_name (JStr s) = ''str''"
| "py_type_name (JList l) = ''list''"
| "py_type_name (JDict d) = ''dict''"

definition no_attribute :: "json \<Rightarrow> string \<Rightarrow> exn" where
  "no_attribute v name =
     Exn ''AttributeError''
       ([39] @ lit (py_type_name v) @ [39] @ lit '' object has no attribute '' @ [39] @ lit name @ [39])"

definition ab_extract_text :: "'f pylib \<Rightarrow> 's ab_env \<Rightarrow> 's \<Rightarrow> ustr \<Rightarrow> (exn + ustr) \<times> 's" where
  "ab_extract_text lib E s selector =
     (case run_cmd E s [lit ''get'', lit ''text'', selector] 60 of
        ((success, output), s1) \<Rightarrow>
          (if success
           then (case parse_json lib output of
                   JDict kvs \<Rightarrow>
                     (case map_of kvs (lit ''text'') of
                        Some (JStr t) \<Rightarrow> (Inr (strip t), s1)
                      | Some v \<Rightarrow> (Inl (no_attribute v ''strip''), s1)
                      | None \<Rightarrow> (Inr [], s1))
                 | JStr t \<Rightarrow> (Inr (strip t), s1)
                 | _ \<Rightarrow> (Inr [], s1))
           else (Inr [], s1)))"

text \<open>
  \<^verbatim>\<open>_extract_html\<close> returns the value under \<^verbatim>\<open>html\<close> whatever it is. The article
  record holds a string there: a value that is not a string is read as the empty
  string, and nothing below depends on \<open>content_html\<close> of this backend.
\<close>

definition ab_extract_html :: "'f pylib \<Rightarrow> 's ab_env \<Rightarrow> 's \<Rightarrow> ustr \<Rightarrow> ustr \<times> 's" where
  "ab_extract_html lib E s selector =
     (case run_cmd E s [lit ''get'', lit ''html'', selector] 60 of
        ((success, output), s1) \<Rightarrow>
          (if success
           then (case parse_json lib output of
                   JDict kvs \<Rightarrow>
                     (case map_of kvs (lit ''html'') of
                        Some (JStr h) \<Rightarrow> (h, s1)
                      | _ \<Rightarrow> ([], s1))
                 | JStr h \<Rightarrow> (h, s1)
                 | _ \<Rightarrow> ([], s1))
           else ([], s1)))"

text \<open>
  The number of rounds of the image loop, \<^verbatim>\<open>range(min(count, 20))\<close>: \<^verbatim>\<open>count\<close> is
  whatever the backend answered; a Boolean is an integer in Python, and comparing any
  other value with 20 raises \<^verbatim>\<open>TypeError\<close>.
\<close>

definition image_rounds :: "json \<Rightarrow> exn + nat" where
  "image_rounds cnt =
     (case cnt of
        JInt n \<Rightarrow> Inr (nat (min n 20))
      | JBool b \<Rightarrow> Inr (if b then 1 else 0)
      | v \<Rightarrow>
          Inl (Exn ''TypeError''
                 ([39] @ lit ''<'' @ [39] @ lit '' not supported between instances of ''
                  @ [39] @ lit ''int'' @ [39] @ lit '' and '' @ [39]
                  @ lit (py_type_name v) @ [39])))"

definition count_of :: "json \<Rightarrow> json" where
  "count_of result =
     (case result of
        JDict kvs \<Rightarrow> (case map_of kvs (lit ''count'') of Some c \<Rightarrow> c | None \<Rightarrow> JInt 0)
      | JInt n \<Rightarrow> JInt n
      | JBool b \<Rightarrow> JBool b
      | _ \<Rightarrow> JInt 0)"

text \<open>Truth of a value in a condition.\<close>

fun truthy :: "json \<Rightarrow> bool" where
  "truthy JNull = False"
| "truthy (JBool b) = b"
| "truthy (JInt n) = (n \<noteq> 0)"
| "truthy (JStr s) = (s \<noteq> [])"
| "truthy (JList l) = (l \<noteq> [])"
| "truthy (JDict d) = (d \<noteq> [])"

definition src_of :: "json \<Rightarrow> json" where
  "src_of result =
     (case result of
        JDict kvs \<Rightarrow> (case map_of kvs (lit ''value'') of Some v \<Rightarrow> v | None \<Rightarrow> JStr [])
      | JStr s \<Rightarrow> JStr s
      | _ \<Rightarrow> JStr [])"

text \<open>
  The loop of \<^verbatim>\<open>WeixinSpiderAB._extract_image_urls\<close>: \<open>n\<close> more rounds from index
  \<open>i\<close>. Only the attribute \<^verbatim>\<open>data-src\<close> is asked for. Nothing catches an exception
  here, so it ends the function and the crawl.
\<close>

fun ab_image_loop ::
  "'f pylib \<Rightarrow> 's ab_env \<Rightarrow> nat \<Rightarrow> nat \<Rightarrow> 's \<Rightarrow> (exn + image list) \<times> 's" where
  "ab_image_loop lib E i 0 s = (Inr [], s)"
| "ab_image_loop lib E i (Suc n) s =
     (let selector = lit ''#js_content img:nth-child('' @ str_nat (i + 1) @ lit '')'' in
      case run_cmd E s [lit ''get'', lit ''attr'', selector, lit ''data-src''] 60 of
        ((success, output), s1) \<Rightarrow>
          (if success
           then (let src = src_of (parse_json lib output) in
                 if truthy src
                 then (case src of
                         JStr u \<Rightarrow>
                           (if \<not> startswith u (lit ''data:'')
                            then then_do (ab_image_loop lib E (Suc i) n s1)
                                   (\<lambda>rest s2.
                                      (Inr (\<lparr> img_index = i, img_url = u, img_alt = [],
                                              img_local_path = None \<rparr> # rest), s2))
                            else ab_image_loop lib E (Suc i) n s1)
                       | v \<Rightarrow> (Inl (no_attribute v ''startswith''), s1))
                 else ab_image_loop lib E (Suc i) n s1)
           else ab_image_loop lib E (Suc i) n s1))"

definition ab_extract_image_urls ::
  "'f pylib \<Rightarrow> 's ab_env \<Rightarrow> 's \<Rightarrow> (exn + image list) \<times> 's" where
  "ab_extract_image_urls lib E s =
     (case run_cmd E s [lit ''get'', lit ''count'', lit ''#js_content img''] 60 of
        ((success, output), s1) \<Rightarrow>
          (if \<not> success then (Inr [], s1)
           else (case image_rounds (count_of (parse_json lib output)) of
                   Inl e \<Rightarrow> (Inl e, s1)
                 | Inr n \<Rightarrow> ab_image_loop lib E 0 n s1)))"

definition challenge_marker_1 :: ustr where
  "challenge_marker_1 = [0x73AF, 0x5883, 0x5F02, 0x5E38]"

definition challenge_marker_2 :: ustr where
  "challenge_marker_2 = [0x5B8C, 0x6210, 0x9A8C, 0x8BC1]"

definition anti_bot_error :: exn where
  "anti_bot_error =
     Exn ''RuntimeError''
       (lit ''WeChat anti-bot verification detected. ''
        @ lit ''Try: 1) Use BROWSER_STATE_FILE with saved login state, ''
        @ lit ''2) Use residential proxy, ''
        @ lit ''3) Wait and retry later'')"

text \<open>
  \<^verbatim>\<open>WeixinSpiderAB.crawl\<close>. The arguments \<^verbatim>\<open>download_images\<close> and \<^verbatim>\<open>output_dir\<close> are
  ignored. The steps after the URL check run inside a \<^verbatim>\<open>try\<close> that logs and raises
  again.
\<close>

definition ab_load_state :: "'s ab_env \<Rightarrow> ab_spider \<Rightarrow> 's \<Rightarrow> ab_spider \<times> 's" where
  "ab_load_state E self s =
     (if BROWSER_STATE_FILE E \<noteq> [] \<and> \<not> state_loaded self
      then (if path_exists E s (BROWSER_STATE_FILE E)
            then (self\<lparr>state_loaded := True\<rparr>,
                  snd (run_cmd E s [lit ''state'', lit ''load'', BROWSER_STATE_FILE E] 60))
            else (self, s))
      else (self, s))"

text \<open>
  The two waits after the page is opened (for the load, then for \<^verbatim>\<open>#js_content\<close>);
  their results are not looked at.
\<close>

definition ab_wait :: "'s ab_env \<Rightarrow> 's \<Rightarrow> int \<Rightarrow> 's" where
  "ab_wait E s wait_time =
     (let s3 = snd (run_cmd E s [lit ''wait'', str_int (wait_time * 1000)] 60);
          s4 = snd (run_cmd E s3 [lit ''wait'', lit ''#js_content''] (wait_time + 10))
      in s4)"

definition ab_read_page ::
  "'f pylib \<Rightarrow> 's ab_env \<Rightarrow> ustr \<Rightarrow> ustr \<Rightarrow> 's \<Rightarrow> (exn + article) \<times> 's" where
  "ab_read_page lib E u timestamp s =
     then_do (ab_extract_text lib E s (lit ''h1.rich_media_title'')) (\<lambda>title1 s.
     then_do (if title1 = [] then ab_extract_text lib E s (lit ''#activity-name'')
              else (Inr title1, s)) (\<lambda>title s.
     then_do (ab_extract_text lib E s (lit ''#js_name'')) (\<lambda>account_name s.
     then_do (ab_extract_text lib E s (lit ''.rich_media_meta_text'')) (\<lambda>author s.
     then_do (ab_extract_text lib E s (lit ''#publish_time'')) (\<lambda>publish_date s.
     case ab_extract_html lib E s (lit ''#js_content'') of
       (html, s) \<Rightarrow>
     then_do (ab_extract_text lib E s (lit ''#js_content'')) (\<lambda>content_text s.
     then_do (ab_extract_image_urls lib E s) (\<lambda>images s.
       (Inr \<lparr> url = u, title = title, author = author, account_name = account_name,
              publish_date = publish_date, content_html = html,
              content_text = content_text, images = images,
              word_count = int (length content_text),
              crawl_timestamp = timestamp \<rparr>, s))))))))"

definition ab_is_valid_weixin_url :: "'f pylib \<Rightarrow> ustr \<Rightarrow> exn + bool" where
  "ab_is_valid_weixin_url lib u =
     (case urlparse_netloc lib u of
        Inl e \<Rightarrow> Inl e
      | Inr netloc \<Rightarrow> Inr (netloc = lit ''mp.weixin.qq.com'' \<or> netloc = lit ''weixin.qq.com''))"

definition ab_crawl ::
  "'f pylib \<Rightarrow> 's ab_env \<Rightarrow> ab_spider \<Rightarrow> 's \<Rightarrow> ustr \<Rightarrow> bool \<Rightarrow> ustr option \<Rightarrow> int
     \<Rightarrow> (exn + article) \<times> ab_spider \<times> 's" where
  "ab_crawl lib E self s u download_images output_dir wait_time =
     (case ab_is_valid_weixin_url lib u of
        Inl e \<Rightarrow> (Inl e, self, s)
      | Inr False \<Rightarrow>
          (Inl (Exn ''ValueError'' (lit ''Invalid WeChat article URL: '' @ u)), self, s)
      | Inr True \<Rightarrow>
          (case ab_load_state E self s of
             (self1, s1) \<Rightarrow>
               (case run_cmd E s1 [lit ''open'', u] 60 of
                  ((success, output), s2) \<Rightarrow>
                    (if \<not> success
                     then (Inl (Exn ''RuntimeError'' (lit ''Failed to open URL: '' @ output)),
                           self1, s2)
                     else
                       (let s4 = ab_wait E s2 wait_time
                        in case then_do (ab_extract_text lib E s4 (lit ''body''))
                                  (\<lambda>page_text s5.
                                     if py_in challenge_marker_1 page_text
                                        \<or> py_in challenge_marker_2 page_text
                                     then (Inl anti_bot_error, s5)
                                     else ab_read_page lib E u (ab_now_isoformat E s) s5) of
                             (r, s') \<Rightarrow> (r, self1, s'))))))"

section \<open>server.py: the tools\<close>

record config =
  DOWNLOAD_IMAGES :: bool
  WAIT_TIME :: int
  OUTPUT_DIR :: ustr

text \<open>
  \<^verbatim>\<open>get_spider\<close>, that is \<^verbatim>\<open>WeixinSpider.get_instance()\<close> (the module is taken to
  import): the instance is stored before the browser is started, so a failed start
  leaves an instance without a driver.
\<close>

definition get_spider :: "env \<Rightarrow> world \<Rightarrow> (exn + spider) \<times> world" where
  "get_spider E w =
     (case spider_instance w of
        Some sp \<Rightarrow> (Inr sp, w)
      | None \<Rightarrow>
          (case init_browser E w of
             Some e \<Rightarrow> (Inl e, w\<lparr>spider_instance := Some \<lparr>has_driver = False\<rparr>\<rparr>)
           | None \<Rightarrow>
               (Inr \<lparr>has_driver = True\<rparr>, w\<lparr>spider_instance := Some \<lparr>has_driver = True\<rparr>\<rparr>)))"

text \<open>
  The JSON objects the tools return: \<^verbatim>\<open>{"error": ..., "type": ...}\<close> (the validation
  errors of \<^verbatim>\<open>compare_articles\<close> have no \<^verbatim>\<open>type\<close> key), the article, the report.
\<close>

record error_json =
  err_error :: ustr
  err_type :: "string option"

definition error_of :: "exn \<Rightarrow> error_json" where
  "error_of e = \<lparr> err_error = exn_str e, err_type = Some (exn_type e) \<rparr>"

datatype crawl_json = ArticleJson article | CrawlError error_json

text \<open>Lines 116 to 119 of \<^verbatim>\<open>crawl_weixin_article\<close>: the output directory.\<close>

definition tool_output_dir :: "config \<Rightarrow> bool \<Rightarrow> ustr option \<Rightarrow> ustr option" where
  "tool_output_dir cfg download_images custom_filename =
     (case custom_filename of
        None \<Rightarrow> None
      | Some name \<Rightarrow>
          (if download_images \<and> name \<noteq> []
           then Some (path_join (OUTPUT_DIR cfg) (sanitize_path name))
           else None))"

definition crawl_weixin_article ::
  "'f pylib \<Rightarrow> env \<Rightarrow> config \<Rightarrow> world \<Rightarrow> ustr \<Rightarrow> bool \<Rightarrow> ustr option \<Rightarrow> crawl_json \<times> world" where
  "crawl_weixin_article lib E cfg w u download_images custom_filename =
     (case get_spider E w of
        (Inl e, w1) \<Rightarrow> (CrawlError (error_of e), w1)
      | (Inr spider, w1) \<Rightarrow>
          (let output_dir = tool_output_dir cfg download_images custom_filename in
           case crawl lib E spider w1 u (download_images \<and> DOWNLOAD_IMAGES cfg) output_dir
                  (WAIT_TIME cfg) of
             (Inl e, w2) \<Rightarrow>
               (if exn_type e = ''ValueError''
                then (CrawlError \<lparr> err_error = exn_str e, err_type = Some ''ValueError'' \<rparr>, w2)
                else (CrawlError (error_of e), w2))
           | (Inr a, w2) \<Rightarrow> (ArticleJson a, w2)))"

text \<open>
  An element of \<^verbatim>\<open>articles_data\<close> in \<^verbatim>\<open>compare_articles\<close>: the dictionary with the keys
  \<^verbatim>\<open>summary\<close> and \<^verbatim>\<open>analysis\<close>, or the one with the keys \<^verbatim>\<open>url\<close> and \<^verbatim>\<open>error\<close>.
\<close>

datatype 'f entry =
  Analyzed (entry_summary: summary) (entry_analysis: "'f analysis")
| Failed (entry_url: ustr) (entry_error: ustr)

fun has_summary :: "'f entry \<Rightarrow> bool" where
  "has_summary (Analyzed s a) = True"
| "has_summary (Failed u e) = False"

fun has_analysis :: "'f entry \<Rightarrow> bool" where
  "has_analysis (Analyzed s a) = True"
| "has_analysis (Failed u e) = False"

record 'f report =
  articles :: "'f entry list"
  by_word_count :: "'f entry list"
  by_image_count :: "'f entry list"
  total_articles :: nat
  successfully_analyzed :: nat
  avg_word_count :: 'f

datatype 'f compare_json = Report "'f report" | CompareError error_json

text \<open>
  The loop over \<^verbatim>\<open>urls\<close>: whatever \<^verbatim>\<open>crawl\<close>, \<^verbatim>\<open>analyze_article\<close> or
  \<^verbatim>\<open>summarize_article\<close> raises becomes the entry of that URL.
\<close>

fun compare_loop ::
  "'f pylib \<Rightarrow> env \<Rightarrow> config \<Rightarrow> spider \<Rightarrow> world \<Rightarrow> ustr list \<Rightarrow> 'f entry list \<times> world" where
  "compare_loop lib E cfg spider w [] = ([], w)"
| "compare_loop lib E cfg spider w (u # urls) =
     (case crawl lib E spider w u False None (WAIT_TIME cfg) of
        (r, w1) \<Rightarrow>
          (let item =
                 (case r of
                    Inl e \<Rightarrow> Failed u (exn_str e)
                  | Inr article \<Rightarrow>
                      (case analyze_article lib article of
                         Inl e \<Rightarrow> Failed u (exn_str e)
                       | Inr analysis \<Rightarrow> Analyzed (summarize_article article) analysis))
           in case compare_loop lib E cfg spider w1 urls of
                (items, w2) \<Rightarrow> (item # items, w2)))"

text \<open>
  \<^verbatim>\<open>sorted(xs, key=k, reverse=True)\<close>: descending by key, entries with equal keys in
  their original order.
\<close>

definition sorted_reverse :: "('a \<Rightarrow> int) \<Rightarrow> 'a list \<Rightarrow> 'a list" where
  "sorted_reverse k xs = sort_key (\<lambda>x. - k x) xs"

definition compare_articles ::
  "'f pylib \<Rightarrow> env \<Rightarrow> config \<Rightarrow> world \<Rightarrow> ustr list \<Rightarrow> 'f compare_json \<times> world" where
  "compare_articles lib E cfg w urls =
     (if length urls < 2
      then (CompareError \<lparr> err_error = lit ''Need at least 2 URLs to compare'', err_type = None \<rparr>, w)
      else if length urls > 5
      then (CompareError \<lparr> err_error = lit ''Maximum 5 URLs for comparison'', err_type = None \<rparr>, w)
      else
        (case get_spider E w of
           (Inl e, w1) \<Rightarrow> (CompareError (error_of e), w1)
         | (Inr spider, w1) \<Rightarrow>
             (case compare_loop lib E cfg spider w1 urls of
                (articles_data, w2) \<Rightarrow>
                  (case py_truediv lib
                          (sum_list (map (\<lambda>a. a_word_count (entry_analysis a))
                                      (filter has_analysis articles_data)))
                          (int (max (length (filter has_analysis articles_data)) 1)) of
                     Inl e \<Rightarrow> (CompareError (error_of e), w2)
                   | Inr avg \<Rightarrow>
                       (Report
                          \<lparr> articles = articles_data,
                            by_word_count =
                              sorted_reverse (\<lambda>x. a_word_count (entry_analysis x))
                                (filter has_summary articles_data),
                            by_image_count =
                              sorted_reverse (\<lambda>x. int (a_image_count (entry_analysis x)))
                                (filter has_summary articles_data),
                            total_articles = length urls,
                            successfully_analyzed = length (filter has_summary articles_data),
                            avg_word_count = avg \<rparr>, w2)))))"


section \<open>Vocabulary of the statements\<close>





text \<open>
  The results of the crawls \<open>compare_articles\<close> makes for \<open>urls\<close>, in order, each
  starting in the world the one before left.
\<close>

fun crawl_results ::
  "'f pylib \<Rightarrow> env \<Rightarrow> config \<Rightarrow> spider \<Rightarrow> world \<Rightarrow> ustr list \<Rightarrow> (exn + article) list" where
  "crawl_results lib E cfg spider w [] = []"
| "crawl_results lib E cfg spider w (u # urls) =
     (case crawl lib E spider w u False None (WAIT_TIME cfg) of
        (r, w1) \<Rightarrow> r # crawl_results lib E cfg spider w1 urls)"

section \<open>Concrete libraries, pages and backends\<close>

text \<open>
  Stand-ins for the library on the inputs used below: \<open>demo_netloc\<close> reads the host of
  an \<^verbatim>\<open>https\<close> URL, \<open>demo_loads\<close> reads the numerals the backends below print and
  rejects everything else they print (URLs, page text, the empty string), which is
  what \<^verbatim>\<open>json.loads\<close> does with them; a quotient is kept as its two integers.
\<close>

definition demo_netloc :: "ustr \<Rightarrow> exn + ustr" where
  "demo_netloc u =
     (if startswith u (lit ''https://'')
      then Inr (takeWhile (\<lambda>c. c \<noteq> of_char CHR ''/'') (drop 8 u))
      else Inr [])"

definition demo_loads :: "ustr \<Rightarrow> json option" where
  "demo_loads s =
     (if s = lit ''1'' then Some (JInt 1)
      else if s = lit ''2'' then Some (JInt 2)
      else if s = lit ''25'' then Some (JInt 25)
      else None)"

definition demo_lib :: "(int \<times> int) pylib" where
  "demo_lib =
     \<lparr> float_div = (\<lambda>a b. (a, b)),
       round_ndigits = (\<lambda>q n. q),
       re_findall = (\<lambda>pattern s. []),
       re_sub = (\<lambda>pattern repl s. s),
       urlparse_netloc = demo_netloc,
       md5_hexdigest = (\<lambda>s. lit ''0123456789abcdef0123456789abcdef''),
       json_loads = demo_loads \<rparr>"

definition good_url :: ustr where
  "good_url = lit ''https://mp.weixin.qq.com/s/good''"

definition slow_url :: ustr where
  "slow_url = lit ''https://mp.weixin.qq.com/s/slow''"

definition photo_url :: ustr where
  "photo_url = lit ''https://mmbiz.qpic.cn/a.png''"

definition placeholder_url :: ustr where
  "placeholder_url = lit ''data:image/gif;base64,R0lGOD''"

definition demo_img :: "ustr option \<Rightarrow> ustr option \<Rightarrow> img_elem" where
  "demo_img data_src src =
     (\<lambda>name. if name = ''data-src'' then Inr data_src
             else if name = ''src'' then Inr src
             else Inr None)"

text \<open>A lazily loaded photo, an inline placeholder, and a photo with only \<^verbatim>\<open>src\<close>.\<close>

definition lazy_photo :: img_elem where
  "lazy_photo = demo_img (Some photo_url) (Some placeholder_url)"

definition placeholder_img :: img_elem where
  "placeholder_img = demo_img None (Some placeholder_url)"

definition plain_photo :: img_elem where
  "plain_photo = demo_img None (Some photo_url)"

definition demo_page :: "img_elem list \<Rightarrow> page" where
  "demo_page imgs =
     \<lparr> get_raises = None,
       wait_raises = (\<lambda>t. None),
       css_text = (\<lambda>selector. if selector = ''#js_name'' then Inr (lit ''Acct'')
                               else Inl (Exn ''NoSuchElementException'' [])),
       js_content =
         Inr \<lparr> inner_html = Inr (lit ''<p>hello</p>''),
               elem_text = Inr (lit ''hello''),
               find_imgs = Inr imgs \<rparr> \<rparr>"

definition timeout_page :: page where
  "timeout_page =
     (demo_page [])\<lparr> wait_raises := (\<lambda>t. Some (Exn ''TimeoutException'' (lit ''Message: ''))) \<rparr>"

definition demo_env :: env where
  "demo_env =
     \<lparr> init_browser = (\<lambda>w. None),
       render = (\<lambda>w u. if u = slow_url then timeout_page
                        else demo_page [placeholder_img, lazy_photo]),
       requests_get = (\<lambda>w u. Inr \<lparr> status_code = 200,
                                     content_type_header = Some (lit ''image/png'') \<rparr>),
       mkdir = (\<lambda>w d. None),
       write_file = (\<lambda>w f. None),
       now_isoformat = (\<lambda>w. lit ''2024-01-01T00:00:00'') \<rparr>"

definition w0 :: world where
  "w0 = \<lparr> spider_instance = None, navigated = [], fetched = [], made_dirs = [], written = [] \<rparr>"

definition env_off :: config where
  "env_off = \<lparr> DOWNLOAD_IMAGES = False, WAIT_TIME = 10, OUTPUT_DIR = lit ''./downloads'' \<rparr>"

definition env_on :: config where
  "env_on = \<lparr> DOWNLOAD_IMAGES = True, WAIT_TIME = 10, OUTPUT_DIR = lit ''./downloads'' \<rparr>"

text \<open>What a crawl of \<open>good_url\<close> in \<open>demo_env\<close> returns.\<close>

definition demo_article :: article where
  "demo_article =
     \<lparr> url = good_url, title = [], author = lit ''Acct'', account_name = lit ''Acct'',
       publish_date = [], content_html = lit ''<p>hello</p>'', content_text = lit ''hello'',
       images = [\<lparr> img_index = 1, img_url = photo_url, img_alt = [], img_local_path = None \<rparr>],
       word_count = 5, crawl_timestamp = lit ''2024-01-01T00:00:00'' \<rparr>"

definition w0_spider :: world where
  "w0_spider = w0\<lparr> spider_instance := Some \<lparr>has_driver = True\<rparr> \<rparr>"

text \<open>
  Agent-browser backends whose state is the list of the commands run so far; each
  answers a command by its arguments alone.
\<close>

definition logging_backend :: "(ustr list \<Rightarrow> bool \<times> ustr) \<Rightarrow> (ustr list list) ab_env" where
  "logging_backend answer =
     \<lparr> run_cmd = (\<lambda>s args t. (answer args, s @ [args])),
       path_exists = (\<lambda>s f. False),
       ab_now_isoformat = (\<lambda>s. lit ''2024-01-01T00:00:00''),
       BROWSER_STATE_FILE = [] \<rparr>"

text \<open>A page that shows the verification challenge, and a backend that times out.\<close>

definition blocked_answer :: "ustr list \<Rightarrow> bool \<times> ustr" where
  "blocked_answer args =
     (if args = [lit ''get'', lit ''text'', lit ''body''] then (True, challenge_marker_1)
      else (True, []))"

definition down_answer :: "ustr list \<Rightarrow> bool \<times> ustr" where
  "down_answer args = (False, lit ''Timeout'')"


text \<open>A container with two images: an inline placeholder, then a photo.\<close>

definition gap_answer :: "ustr list \<Rightarrow> bool \<times> ustr" where
  "gap_answer args =
     (if args = [lit ''get'', lit ''count'', lit ''#js_content img''] then (True, lit ''2'')
      else if args = [lit ''get'', lit ''attr'', lit ''#js_content img:nth-child(1)'', lit ''data-src'']
      then (True, placeholder_url)
      else if args = [lit ''get'', lit ''attr'', lit ''#js_content img:nth-child(2)'', lit ''data-src'']
      then (True, photo_url)
      else (True, []))"


text \<open>
  A container with one image that has no \<^verbatim>\<open>data-src\<close> (the backend prints nothing for
  it) and the photo as its \<^verbatim>\<open>src\<close>.
\<close>

definition src_only_answer :: "ustr list \<Rightarrow> bool \<times> ustr" where
  "src_only_answer args =
     (if args = [lit ''get'', lit ''count'', lit ''#js_content img''] then (True, lit ''1'')
      else if args = [lit ''get'', lit ''attr'', lit ''#js_content img:nth-child(1)'', lit ''src'']
      then (True, photo_url)
      else (True, []))"

section \<open>Properties\<close>

lemma length_lit: "length (lit s) = length s"
  by (simp add: lit_def)

text \<open>
  C5. In both spider classes, \<^verbatim>\<open>first_300_chars\<close> is \<^verbatim>\<open>content_text\<close> itself when
  it has at most 300 characters and its first 300 characters followed by \<^verbatim>\<open>...\<close>
  otherwise; it is never longer than 303 characters.
\<close>

theorem summarize_first_300_chars:
  "first_300_chars (summarize_article a) =
     (if length (content_text a) \<le> 300 then content_text a
      else take 300 (content_text a) @ lit ''...'')
   \<and> first_300_chars (ab_summarize_article a) =
     (if length (content_text a) \<le> 300 then content_text a
      else take 300 (content_text a) @ lit ''...'')
   \<and> length (first_300_chars (summarize_article a)) \<le> 303
   \<and> length (first_300_chars (ab_summarize_article a)) \<le> 303"
  by (simp add: summarize_article_def ab_summarize_article_def length_lit)

subsection \<open>sanitize_path\<close>










subsection \<open>analyze_article\<close>

text \<open>
  C6. In both spider classes \<open>analyze_article\<close> returns (it never raises on the
  division, the reading speed being 200) and its \<^verbatim>\<open>estimated_read_time_minutes\<close> is
  \<^verbatim>\<open>round(word_count / 200, 1)\<close>: the float quotient of the article's word count by
  the constant \<^verbatim>\<open>READING_SPEED_CPM = 200\<close>, rounded to one decimal.
\<close>

theorem analyze_article_read_time:
  "(\<exists>an. analyze_article lib a = Inr an
         \<and> estimated_read_time_minutes an
             = round_ndigits lib (float_div lib (word_count a) 200) 1)
   \<and> (\<exists>an. ab_analyze_article lib a = Inr an
         \<and> estimated_read_time_minutes an
             = round_ndigits lib (float_div lib (word_count a) 200) 1)
   \<and> READING_SPEED_CPM = 200 \<and> AB_READING_SPEED_CPM = 200"
  by (simp add: analyze_article_def ab_analyze_article_def py_truediv_def
      READING_SPEED_CPM_def AB_READING_SPEED_CPM_def Let_def)

subsection \<open>compare_articles\<close>

text \<open>
  C3. With fewer than 2 or more than 5 URLs, \<open>compare_articles\<close> returns the error
  object of the failed check and leaves the world as it was: no spider instance is
  acquired (\<open>spider_instance\<close>), no page is opened (\<open>navigated\<close>), nothing is fetched.
\<close>

theorem compare_articles_rejects_length:
  assumes "length urls < 2 \<or> 5 < length urls"
  shows "compare_articles lib E cfg w urls =
           (CompareError
              \<lparr> err_error = (if length urls < 2 then lit ''Need at least 2 URLs to compare''
                             else lit ''Maximum 5 URLs for comparison''),
                err_type = None \<rparr>, w)"
  using assms by (auto simp: compare_articles_def)

theorem compare_articles_rejects_length_witness:
  "compare_articles demo_lib demo_env env_off w0 [good_url] =
     (CompareError \<lparr> err_error = lit ''Need at least 2 URLs to compare'', err_type = None \<rparr>, w0)
   \<and> compare_articles demo_lib demo_env env_off w0 (replicate 6 good_url) =
     (CompareError \<lparr> err_error = lit ''Maximum 5 URLs for comparison'', err_type = None \<rparr>, w0)"
  using compare_articles_rejects_length [of "[good_url]" demo_lib demo_env env_off w0]
    compare_articles_rejects_length [of "replicate 6 good_url" demo_lib demo_env env_off w0]
  by simp

subsection \<open>Image extraction\<close>


lemma image_loop_Cons_cases:
  "image_loop i (img # rest) = []
   \<or> image_loop i (img # rest) = image_loop (Suc i) rest
   \<or> (\<exists>src alt. image_loop i (img # rest) =
         \<lparr>img_index = i, img_url = src, img_alt = alt, img_local_path = None\<rparr> # image_loop (Suc i) rest)"
  by (simp split: sum.split option.split)


















subsection \<open>Evaluation of the concrete pages and backends\<close>

lemma str_nat_1digit: "n < 10 \<Longrightarrow> str_nat n = [48 + n]"
  by (simp add: str_nat_def)

lemma ab_image_loop_numeral:
  "ab_image_loop lib E i (numeral k) s = ab_image_loop lib E i (Suc (pred_numeral k)) s"
  by (simp add: numeral_eq_Suc)

lemmas ab_eval =
  ab_extract_image_urls_def logging_backend_def parse_json_def demo_lib_def demo_loads_def
  count_of_def image_rounds_def src_of_def then_do_def startswith_def strip_def isspace_def
  unwrap_data_def lit_def str_nat_1digit photo_url_def placeholder_url_def
  Let_def ab_image_loop_numeral

lemmas ab_crawl_eval =
  ab_eval ab_crawl_def ab_is_valid_weixin_url_def demo_netloc_def good_url_def ab_load_state_def
  ab_extract_text_def ab_extract_html_def ab_wait_def ab_read_page_def
  challenge_marker_1_def challenge_marker_2_def

lemmas selenium_eval =
  crawl_def is_valid_weixin_url_def demo_lib_def demo_netloc_def good_url_def slow_url_def
  demo_env_def demo_page_def timeout_page_def extract_title_def extract_author_def
  extract_account_name_def extract_publish_date_def extract_content_html_def
  extract_content_text_def extract_image_urls_def resolve_src_def placeholder_img_def
  lazy_photo_def plain_photo_def demo_img_def photo_url_def placeholder_url_def
  startswith_def strip_def isspace_def lit_def Let_def





lemma gap_images:
  "ab_extract_image_urls demo_lib (logging_backend gap_answer) [] =
   (Inr [\<lparr>img_index = 1, img_url = photo_url, img_alt = [], img_local_path = None\<rparr>],
    [[lit ''get'', lit ''count'', lit ''#js_content img''],
     [lit ''get'', lit ''attr'', lit ''#js_content img:nth-child(1)'', lit ''data-src''],
     [lit ''get'', lit ''attr'', lit ''#js_content img:nth-child(2)'', lit ''data-src'']])"
  by (simp add: ab_eval gap_answer_def)

lemma src_only_images:
  "ab_extract_image_urls demo_lib (logging_backend src_only_answer) [] =
   (Inr [],
    [[lit ''get'', lit ''count'', lit ''#js_content img''],
     [lit ''get'', lit ''attr'', lit ''#js_content img:nth-child(1)'', lit ''data-src'']])"
  by (simp add: ab_eval src_only_answer_def)

lemma plain_photo_selenium:
  "extract_image_urls (demo_page [plain_photo]) =
     [\<lparr>img_index = 0, img_url = photo_url, img_alt = [], img_local_path = None\<rparr>]"
  by (simp add: selenium_eval)



lemma blocked_crawl:
  "fst (ab_crawl demo_lib (logging_backend blocked_answer) \<lparr>state_loaded = False\<rparr> [] good_url False None 10)
     = Inl anti_bot_error"
  by (simp add: ab_crawl_eval blocked_answer_def)

lemma down_crawl:
  "fst (ab_crawl demo_lib (logging_backend down_answer) \<lparr>state_loaded = False\<rparr> [] good_url False None 10)
     = Inl (Exn ''RuntimeError'' (lit ''Failed to open URL: Timeout''))"
  by (simp add: ab_crawl_eval down_answer_def)









text \<open>
  C9 at an \<^verbatim>\<open>img\<close> element that has no \<^verbatim>\<open>data-src\<close> and a photo as its \<^verbatim>\<open>src\<close>. The
  agent-browser backend asks for \<^verbatim>\<open>data-src\<close> only (the commands it runs are listed)
  and records no image, although the backend would have answered the question for
  \<^verbatim>\<open>src\<close> with the photo; the Selenium backend records the photo for the same element.
\<close>

theorem ab_src_fallback_missing:
  "ab_extract_image_urls demo_lib (logging_backend src_only_answer) [] =
     (Inr [],
      [[lit ''get'', lit ''count'', lit ''#js_content img''],
       [lit ''get'', lit ''attr'', lit ''#js_content img:nth-child(1)'', lit ''data-src'']])
   \<and> src_only_answer [lit ''get'', lit ''attr'', lit ''#js_content img:nth-child(1)'', lit ''src'']
       = (True, photo_url)
   \<and> extract_image_urls (demo_page [plain_photo]) =
       [\<lparr>img_index = 0, img_url = photo_url, img_alt = [], img_local_path = None\<rparr>]"
  using src_only_images plain_photo_selenium
  by (simp add: src_only_answer_def lit_def)

subsection \<open>compare_articles: partial failure\<close>

lemma analyze_total: "\<exists>an. analyze_article lib a = Inr an"
  by (simp add: analyze_article_def py_truediv_def READING_SPEED_CPM_def Let_def)

lemma compare_loop_length:
  "compare_loop lib E cfg spider w urls = (items, w2) \<Longrightarrow> length items = length urls"
proof (induction urls arbitrary: w items w2)
  case Nil
  then show ?case by simp
next
  case (Cons u urls)
  obtain r w1 where c: "crawl lib E spider w u False None (WAIT_TIME cfg) = (r, w1)"
    by (cases "crawl lib E spider w u False None (WAIT_TIME cfg)") auto
  obtain rest w3 where l: "compare_loop lib E cfg spider w1 urls = (rest, w3)"
    by (cases "compare_loop lib E cfg spider w1 urls") auto
  from Cons.prems c l have "length items = Suc (length rest)" by (auto simp: Let_def)
  with Cons.IH[OF l] show ?case by simp
qed

lemma compare_loop_nth:
  "compare_loop lib E cfg spider w urls = (items, w2) \<Longrightarrow> i < length urls \<Longrightarrow>
     (case crawl_results lib E cfg spider w urls ! i of
        Inl e \<Rightarrow> items ! i = Failed (urls ! i) (exn_str e)
      | Inr a \<Rightarrow> \<exists>an. analyze_article lib a = Inr an
                     \<and> items ! i = Analyzed (summarize_article a) an)"
proof (induction urls arbitrary: w items w2 i)
  case Nil
  then show ?case by simp
next
  case (Cons u urls)
  obtain r w1 where c: "crawl lib E spider w u False None (WAIT_TIME cfg) = (r, w1)"
    by (cases "crawl lib E spider w u False None (WAIT_TIME cfg)") auto
  obtain rest w3 where l: "compare_loop lib E cfg spider w1 urls = (rest, w3)"
    by (cases "compare_loop lib E cfg spider w1 urls") auto
  let ?item = "(case r of
                    Inl e \<Rightarrow> Failed u (exn_str e)
                  | Inr article \<Rightarrow>
                      (case analyze_article lib article of
                         Inl e \<Rightarrow> Failed u (exn_str e)
                       | Inr analysis \<Rightarrow> Analyzed (summarize_article article) analysis))"
  from Cons.prems(1) c l have items: "items = ?item # rest" by (auto simp: Let_def)
  have res: "crawl_results lib E cfg spider w (u # urls) = r # crawl_results lib E cfg spider w1 urls"
    using c by simp
  show ?case
  proof (cases i)
    case 0
    show ?thesis
    proof (cases r)
      case (Inl e)
      then show ?thesis unfolding res items 0 by simp
    next
      case (Inr a)
      obtain an where "analyze_article lib a = Inr an" using analyze_total by blast
      then show ?thesis unfolding res items 0 using Inr by simp
    qed
  next
    case (Suc j)
    then have "j < length urls" using Cons.prems(2) by simp
    from Cons.IH[OF l this] show ?thesis unfolding res items Suc
      by (auto split: sum.splits)
  qed
qed

lemma has_analysis_summary: "has_analysis = has_summary"
proof
  fix e :: "'a entry" show "has_analysis e = has_summary e" by (cases e) simp_all
qed

lemma mset_sorted_reverse: "mset (sorted_reverse k xs) = mset xs"
  by (simp add: sorted_reverse_def)

text \<open>
  C1. With 2 to 5 URLs and a spider at hand, \<open>compare_articles\<close> always returns a
  report, whatever the single crawls do. Its \<^verbatim>\<open>articles\<close> list has one element per URL,
  in order: for a crawl that failed the error entry with that URL and the exception's
  text, for a crawl that succeeded the entry with summary and analysis. Both rankings
  hold exactly the successful entries, each once. The division for \<^verbatim>\<open>avg_word_count\<close>
  does not raise: it is the quotient of the sum of the successful entries' word counts
  by \<^verbatim>\<open>max(number of successes, 1)\<close>.
\<close>

theorem compare_articles_partial_failure:
  assumes "2 \<le> length urls" and "length urls \<le> 5"
      and "get_spider E w = (Inr spider, w1)"
  shows "\<exists>r w2. compare_articles lib E cfg w urls = (Report r, w2)
     \<and> length (articles r) = length urls
     \<and> (\<forall>i < length urls.
          case crawl_results lib E cfg spider w1 urls ! i of
            Inl e \<Rightarrow> articles r ! i = Failed (urls ! i) (exn_str e)
          | Inr a \<Rightarrow> \<exists>an. analyze_article lib a = Inr an
                         \<and> articles r ! i = Analyzed (summarize_article a) an)
     \<and> mset (by_word_count r) = mset (filter has_summary (articles r))
     \<and> mset (by_image_count r) = mset (filter has_summary (articles r))
     \<and> py_truediv lib
          (sum_list (map (\<lambda>e. a_word_count (entry_analysis e)) (filter has_summary (articles r))))
          (int (max (length (filter has_summary (articles r))) 1))
        = Inr (avg_word_count r)
     \<and> avg_word_count r
        = float_div lib
            (sum_list (map (\<lambda>e. a_word_count (entry_analysis e)) (filter has_summary (articles r))))
            (int (max (length (filter has_summary (articles r))) 1))"
proof -
  obtain items w2 where l: "compare_loop lib E cfg spider w1 urls = (items, w2)"
    by (cases "compare_loop lib E cfg spider w1 urls") auto
  let ?ok = "filter has_summary items"
  let ?total = "sum_list (map (\<lambda>e. a_word_count (entry_analysis e)) ?ok)"
  let ?n = "int (max (length ?ok) 1)"
  let ?r = "\<lparr> articles = items,
              by_word_count = sorted_reverse (\<lambda>x. a_word_count (entry_analysis x)) ?ok,
              by_image_count = sorted_reverse (\<lambda>x. int (a_image_count (entry_analysis x))) ?ok,
              total_articles = length urls,
              successfully_analyzed = length ?ok,
              avg_word_count = float_div lib ?total ?n \<rparr>"
  have div: "py_truediv lib ?total ?n = Inr (float_div lib ?total ?n)"
    by (simp add: py_truediv_def)
  have res: "compare_articles lib E cfg w urls = (Report ?r, w2)"
    using assms l div by (simp add: compare_articles_def has_analysis_summary)
  have nth: "\<forall>i < length urls.
          case crawl_results lib E cfg spider w1 urls ! i of
            Inl e \<Rightarrow> items ! i = Failed (urls ! i) (exn_str e)
          | Inr a \<Rightarrow> \<exists>an. analyze_article lib a = Inr an
                         \<and> items ! i = Analyzed (summarize_article a) an"
    using compare_loop_nth[OF l] by blast
  define r where "r = ?r"
  have ar: "articles r = items" by (simp add: r_def)
  show ?thesis
  proof (intro exI[of _ r] exI[of _ w2] conjI)
    show "compare_articles lib E cfg w urls = (Report r, w2)"
      using res by (simp add: r_def)
    show "length (articles r) = length urls"
      unfolding ar by (rule compare_loop_length[OF l])
    show "\<forall>i < length urls.
          case crawl_results lib E cfg spider w1 urls ! i of
            Inl e \<Rightarrow> articles r ! i = Failed (urls ! i) (exn_str e)
          | Inr a \<Rightarrow> \<exists>an. analyze_article lib a = Inr an
                         \<and> articles r ! i = Analyzed (summarize_article a) an"
      unfolding ar by (rule nth)
    show "mset (by_word_count r) = mset (filter has_summary (articles r))"
      by (simp add: r_def mset_sorted_reverse)
    show "mset (by_image_count r) = mset (filter has_summary (articles r))"
      by (simp add: r_def mset_sorted_reverse)
    show "py_truediv lib
          (sum_list (map (\<lambda>e. a_word_count (entry_analysis e)) (filter has_summary (articles r))))
          (int (max (length (filter has_summary (articles r))) 1))
        = Inr (avg_word_count r)"
      unfolding ar using div by (simp add: r_def)
    show "avg_word_count r
        = float_div lib
            (sum_list (map (\<lambda>e. a_word_count (entry_analysis e)) (filter has_summary (articles r))))
            (int (max (length (filter has_summary (articles r))) 1))"
      by (simp add: r_def)
  qed
qed

lemma compare_demo:
  "(case fst (compare_articles demo_lib demo_env env_off w0 [good_url, slow_url]) of
      Report r \<Rightarrow>
        map has_summary (articles r) = [True, False]
        \<and> map entry_url (filter (\<lambda>e. \<not> has_summary e) (articles r)) = [slow_url]
        \<and> length (by_word_count r) = 1 \<and> length (by_image_count r) = 1
        \<and> avg_word_count r = (5, 1)
    | CompareError e \<Rightarrow> False)"
  by (simp add: compare_articles_def get_spider_def w0_def env_off_def selenium_eval
      analyze_article_def summarize_article_def py_truediv_def READING_SPEED_CPM_def
      sorted_reverse_def)

lemma get_spider_demo: "get_spider demo_env w0 = (Inr \<lparr>has_driver = True\<rparr>, w0_spider)"
  by (simp add: get_spider_def demo_env_def w0_def w0_spider_def)

theorem compare_articles_partial_failure_witness:
  "2 \<le> length [good_url, slow_url] \<and> length [good_url, slow_url] \<le> 5
   \<and> get_spider demo_env w0 = (Inr \<lparr>has_driver = True\<rparr>, w0_spider)
   \<and> (\<exists>r w2. compare_articles demo_lib demo_env env_off w0 [good_url, slow_url] = (Report r, w2)
         \<and> length (articles r) = 2
         \<and> map has_summary (articles r) = [True, False]
         \<and> map entry_url (filter (\<lambda>e. \<not> has_summary e) (articles r)) = [slow_url]
         \<and> mset (by_word_count r) = mset (filter has_summary (articles r))
         \<and> length (by_word_count r) = 1 \<and> length (by_image_count r) = 1
         \<and> avg_word_count r = (5, 1))"
proof -
  have len: "2 \<le> length [good_url, slow_url]" "length [good_url, slow_url] \<le> 5" by simp_all
  from compare_articles_partial_failure [OF len get_spider_demo, of demo_lib env_off]
  obtain r w2 where
    r: "compare_articles demo_lib demo_env env_off w0 [good_url, slow_url] = (Report r, w2)"
    and l: "length (articles r) = length [good_url, slow_url]"
    and m: "mset (by_word_count r) = mset (filter has_summary (articles r))"
    by blast
  from compare_demo r have
    "map has_summary (articles r) = [True, False]
     \<and> map entry_url (filter (\<lambda>e. \<not> has_summary e) (articles r)) = [slow_url]
     \<and> length (by_word_count r) = 1 \<and> length (by_image_count r) = 1
     \<and> avg_word_count r = (5, 1)"
    by simp
  with r l m get_spider_demo show ?thesis by simp
qed

subsection \<open>crawl_weixin_article\<close>

lemma image_loop_no_local_path: "im \<in> set (image_loop k es) \<Longrightarrow> img_local_path im = None"
proof (induction es arbitrary: k)
  case Nil
  then show ?case by simp
next
  case (Cons e es)
  consider (stop) "image_loop k (e # es) = []"
    | (skip) "image_loop k (e # es) = image_loop (Suc k) es"
    | (add) src alt where "image_loop k (e # es) =
         \<lparr>img_index = k, img_url = src, img_alt = alt, img_local_path = None\<rparr> # image_loop (Suc k) es"
    using image_loop_Cons_cases[of k e es] by blast
  then show ?case
  proof cases
    case stop
    with Cons.prems show ?thesis by (simp only: set_simps empty_iff)
  next
    case skip
    with Cons.prems have "im \<in> set (image_loop (Suc k) es)" by (simp only:)
    from Cons.IH[OF this] show ?thesis .
  next
    case (add src alt)
    with Cons.prems have "img_local_path im = None \<or> im \<in> set (image_loop (Suc k) es)"
      by (auto simp only: set_simps insert_iff image.simps)
    then show ?thesis using Cons.IH by blast
  qed
qed

lemma extract_image_urls_no_local_path:
  "im \<in> set (extract_image_urls p) \<Longrightarrow> img_local_path im = None"
  by (auto simp: extract_image_urls_def split: sum.splits dest: image_loop_no_local_path)

lemma crawl_without_download:
  assumes "crawl lib E spider w u False output_dir wait_time = (r, w')"
  shows "fetched w' = fetched w \<and> made_dirs w' = made_dirs w \<and> written w' = written w
         \<and> spider_instance w' = spider_instance w
         \<and> (\<forall>a. r = Inr a \<longrightarrow> images a = extract_image_urls (render E w u))"
  using assms
  by (auto simp: crawl_def Let_def split: sum.splits bool.splits if_splits option.splits)

lemma crawl_ignores_output_dir:
  "crawl lib E spider w u False output_dir wait_time = crawl lib E spider w u False None wait_time"
  by (simp add: crawl_def Let_def split: sum.split bool.split option.split)

lemma crawl_loaded_page:
  assumes "has_driver spider" "is_valid_weixin_url lib u = Inr True"
      and "get_raises (render E w u) = None" "wait_raises (render E w u) wait_time = None"
  shows "\<exists>a. crawl lib E spider w u False output_dir wait_time
               = (Inr a, w\<lparr>navigated := navigated w @ [u]\<rparr>)"
  using assms by (simp add: crawl_def Let_def)

lemma get_spider_keeps_logs:
  "get_spider E w = (r, w1) \<Longrightarrow>
     fetched w1 = fetched w \<and> made_dirs w1 = made_dirs w \<and> written w1 = written w"
  by (auto simp: get_spider_def split: option.splits)

lemma tool_output_dir_False: "tool_output_dir cfg False custom_filename = None"
  by (simp add: tool_output_dir_def split: option.split)

lemma crawl_tool_flag_off:
  assumes "\<not> (download_images \<and> DOWNLOAD_IMAGES cfg)"
  shows "crawl_weixin_article lib E cfg w u download_images custom_filename
           = crawl_weixin_article lib E cfg w u False None"
proof -
  have f: "(download_images \<and> DOWNLOAD_IMAGES cfg) = False" using assms by simp
  have g: "(False \<and> DOWNLOAD_IMAGES cfg) = False" by simp
  show ?thesis
    unfolding crawl_weixin_article_def f g Let_def
    by (simp add: tool_output_dir_False
        crawl_ignores_output_dir[of lib E _ _ u "tool_output_dir cfg download_images custom_filename"]
        split: prod.split sum.split)
qed

text \<open>
  C10. When the caller's \<^verbatim>\<open>download_images\<close> and the environment's
  \<^verbatim>\<open>DOWNLOAD_IMAGES\<close> are not both true, \<open>crawl_weixin_article\<close> fetches no image,
  makes no directory and writes no file; no entry of a returned article has a
  \<^verbatim>\<open>local_path\<close>; the call returns what the same call with \<^verbatim>\<open>download_images=False\<close>
  and no label returns, so it succeeds when that one does: for a valid URL whose page
  loads, with the article whose images are the extracted URL entries. The label gives
  no output directory when the caller's \<^verbatim>\<open>download_images\<close> is false, and the
  sanitized directory under \<^verbatim>\<open>OUTPUT_DIR\<close> when it is true and the label is not empty.
\<close>

theorem crawl_tool_download_gate:
  assumes "\<not> (download_images \<and> DOWNLOAD_IMAGES cfg)"
      and "crawl_weixin_article lib E cfg w u download_images custom_filename = (r, w')"
  shows "fetched w' = fetched w \<and> made_dirs w' = made_dirs w \<and> written w' = written w
       \<and> (\<forall>a. r = ArticleJson a \<longrightarrow> (\<forall>img \<in> set (images a). img_local_path img = None))
       \<and> crawl_weixin_article lib E cfg w u False None = (r, w')
       \<and> (\<forall>spider w1. get_spider E w = (Inr spider, w1) \<and> has_driver spider
             \<and> is_valid_weixin_url lib u = Inr True
             \<and> get_raises (render E w1 u) = None
             \<and> wait_raises (render E w1 u) (WAIT_TIME cfg) = None
           \<longrightarrow> (\<exists>a. r = ArticleJson a \<and> images a = extract_image_urls (render E w1 u)))
       \<and> tool_output_dir cfg' False custom_filename' = None
       \<and> tool_output_dir cfg' True (Some name)
           = (if name \<noteq> [] then Some (path_join (OUTPUT_DIR cfg') (sanitize_path name)) else None)"
proof -
  have off: "crawl_weixin_article lib E cfg w u False None = (r, w')"
    using assms crawl_tool_flag_off[of download_images cfg lib E w u custom_filename] by simp
  obtain g w1 where g: "get_spider E w = (g, w1)" by (cases "get_spider E w") auto
  from get_spider_keeps_logs[OF g]
  have logs1: "fetched w1 = fetched w" "made_dirs w1 = made_dirs w" "written w1 = written w"
    by simp_all
  have main: "fetched w' = fetched w \<and> made_dirs w' = made_dirs w \<and> written w' = written w
       \<and> (\<forall>a. r = ArticleJson a \<longrightarrow> (\<forall>img \<in> set (images a). img_local_path img = None))
       \<and> (\<forall>spider w1. get_spider E w = (Inr spider, w1) \<and> has_driver spider
             \<and> is_valid_weixin_url lib u = Inr True
             \<and> get_raises (render E w1 u) = None
             \<and> wait_raises (render E w1 u) (WAIT_TIME cfg) = None
           \<longrightarrow> (\<exists>a. r = ArticleJson a \<and> images a = extract_image_urls (render E w1 u)))"
  proof (cases g)
    case (Inl e)
    with off g logs1 show ?thesis by (auto simp: crawl_weixin_article_def)
  next
    case (Inr spider)
    obtain c w2 where c: "crawl lib E spider w1 u False None (WAIT_TIME cfg) = (c, w2)"
      by (cases "crawl lib E spider w1 u False None (WAIT_TIME cfg)") auto
    from crawl_without_download[OF c]
    have logs2: "fetched w2 = fetched w1" "made_dirs w2 = made_dirs w1" "written w2 = written w1"
      and imgs: "\<forall>a. c = Inr a \<longrightarrow> images a = extract_image_urls (render E w1 u)"
      by simp_all
    have w': "w' = w2" and r: "r = (case c of Inl e \<Rightarrow> CrawlError (error_of e) | Inr a \<Rightarrow> ArticleJson a)"
      using off g Inr c
      by (auto simp: crawl_weixin_article_def tool_output_dir_False error_of_def
          split: sum.splits if_splits)
    have a1: "\<forall>a. r = ArticleJson a \<longrightarrow> (\<forall>img \<in> set (images a). img_local_path img = None)"
      using r imgs extract_image_urls_no_local_path by (auto split: sum.splits)
    have a2: "has_driver spider \<and> is_valid_weixin_url lib u = Inr True
             \<and> get_raises (render E w1 u) = None
             \<and> wait_raises (render E w1 u) (WAIT_TIME cfg) = None
           \<longrightarrow> (\<exists>a. r = ArticleJson a \<and> images a = extract_image_urls (render E w1 u))"
    proof
      assume h: "has_driver spider \<and> is_valid_weixin_url lib u = Inr True
             \<and> get_raises (render E w1 u) = None
             \<and> wait_raises (render E w1 u) (WAIT_TIME cfg) = None"
      then obtain a where "crawl lib E spider w1 u False None (WAIT_TIME cfg)
               = (Inr a, w1\<lparr>navigated := navigated w1 @ [u]\<rparr>)"
        using crawl_loaded_page[of spider lib u E w1 "WAIT_TIME cfg" None] by blast
      with c have "c = Inr a" by simp
      with r imgs show "\<exists>a. r = ArticleJson a \<and> images a = extract_image_urls (render E w1 u)"
        by simp
    qed
    show ?thesis using logs1 logs2 w' a1 a2 g Inr by auto
  qed
  have dir: "tool_output_dir cfg' True (Some name)
           = (if name \<noteq> [] then Some (path_join (OUTPUT_DIR cfg') (sanitize_path name)) else None)"
    by (simp add: tool_output_dir_def)
  show ?thesis using main off dir tool_output_dir_False[of cfg' custom_filename'] by blast
qed

lemma crawl_tool_demo:
  "crawl_weixin_article demo_lib demo_env env_off w0 good_url True (Some (lit ''my/label''))
     = (ArticleJson demo_article, w0_spider\<lparr>navigated := [good_url]\<rparr>)"
  by (simp add: crawl_weixin_article_def get_spider_def env_off_def w0_def w0_spider_def
      selenium_eval demo_article_def)

theorem crawl_tool_download_gate_witness:
  "\<not> (True \<and> DOWNLOAD_IMAGES env_off)
   \<and> crawl_weixin_article demo_lib demo_env env_off w0 good_url True (Some (lit ''my/label''))
       = (ArticleJson demo_article, w0_spider\<lparr>navigated := [good_url]\<rparr>)
   \<and> fetched (w0_spider\<lparr>navigated := [good_url]\<rparr>) = fetched w0
   \<and> written (w0_spider\<lparr>navigated := [good_url]\<rparr>) = written w0
   \<and> list_all (\<lambda>img. img_local_path img = None) (images demo_article)
   \<and> crawl_weixin_article demo_lib demo_env env_off w0 good_url False None
       = (ArticleJson demo_article, w0_spider\<lparr>navigated := [good_url]\<rparr>)
   \<and> tool_output_dir env_off True (Some (lit ''my/label'')) = Some (lit ''./downloads/my_label'')"
proof -
  have h: "\<not> (True \<and> DOWNLOAD_IMAGES env_off)" by (simp add: env_off_def)
  have d: "path_join (OUTPUT_DIR env_off) (sanitize_path (lit ''my/label'')) = lit ''./downloads/my_label''"
    by (simp add: path_join_def env_off_def sanitize_path_def is_path_char_def is_kept_char_def
        startswith_def endswith_def lit_def)
  show ?thesis
    using h d crawl_tool_demo
      crawl_tool_download_gate [OF h crawl_tool_demo, of env_off "Some []" "lit ''my/label''"]
    by (simp add: list_all_iff lit_def)
qed

text \<open>
  The other side of the gate: with both flags true the photo is fetched and written
  under the sanitized directory, and its entry has the \<^verbatim>\<open>local_path\<close>.
\<close>

lemma crawl_tool_downloads_when_both_true:
  "crawl_weixin_article demo_lib demo_env env_on w0 good_url True (Some (lit ''my/label''))
     = (ArticleJson
          (demo_article\<lparr>images :=
             [\<lparr>img_index = 1, img_url = photo_url, img_alt = [],
               img_local_path = Some (lit ''./downloads/my_label/image_001.png'')\<rparr>]\<rparr>),
        w0_spider\<lparr>navigated := [good_url], fetched := [photo_url],
                  made_dirs := [lit ''./downloads/my_label''],
                  written := [lit ''./downloads/my_label/image_001.png'']\<rparr>)"
  by (simp add: crawl_weixin_article_def get_spider_def env_on_def w0_def w0_spider_def
      selenium_eval demo_article_def tool_output_dir_def sanitize_path_def is_path_char_def
      is_kept_char_def path_join_def endswith_def extract_and_download_images_def
      download_one_def fmt_03d_def str_nat_1digit file_ext_def numeral_eq_Suc[of "num.Bit0 num.One"]
      error_of_def)

subsection \<open>WeixinSpiderAB.crawl: the verification challenge\<close>

lemma ab_crawl_blocked:
  assumes "ab_is_valid_weixin_url lib u = Inr True"
      and "ab_load_state E self s = (self1, s1)"
      and "run_cmd E s1 [lit ''open'', u] 60 = ((True, out), s2)"
      and "ab_extract_text lib E (ab_wait E s2 wait_time) (lit ''body'') = (Inr page_text, s5)"
      and "py_in challenge_marker_1 page_text \<or> py_in challenge_marker_2 page_text"
  shows "ab_crawl lib E self s u download_images output_dir wait_time
           = (Inl anti_bot_error, self1, s5)"
  using assms by (auto simp: ab_crawl_def Let_def then_do_def)

lemma ab_crawl_open_failed:
  assumes "ab_is_valid_weixin_url lib u = Inr True"
      and "ab_load_state E self s = (self1, s1)"
      and "run_cmd E s1 [lit ''open'', u] 60 = ((False, out), s2)"
  shows "ab_crawl lib E self s u download_images output_dir wait_time
           = (Inl (Exn ''RuntimeError'' (lit ''Failed to open URL: '' @ out)), self1, s2)"
  using assms by (simp add: ab_crawl_def)

text \<open>
  C4, as the code has it. An agent-browser crawl of an allowed URL whose page opens and
  whose body text contains one of the two challenge markers fails with a
  \<^verbatim>\<open>RuntimeError\<close> carrying the anti-bot message. It is not a kind of its own: a
  crawl whose page does not open (the backend failed or the subprocess timed out)
  fails with a \<^verbatim>\<open>RuntimeError\<close> too, and only the message tells the two apart.
\<close>

theorem blocked_page_raises_runtime_error:
  "(ab_is_valid_weixin_url lib u = Inr True
     \<and> ab_load_state E self s = (self1, s1)
     \<and> run_cmd E s1 [lit ''open'', u] 60 = ((True, out), s2)
     \<and> ab_extract_text lib E (ab_wait E s2 wait_time) (lit ''body'') = (Inr page_text, s5)
     \<and> (py_in challenge_marker_1 page_text \<or> py_in challenge_marker_2 page_text)
    \<longrightarrow> ab_crawl lib E self s u download_images output_dir wait_time
          = (Inl anti_bot_error, self1, s5))
   \<and> exn_type anti_bot_error = ''RuntimeError''
   \<and> (ab_is_valid_weixin_url lib u' = Inr True
       \<and> ab_load_state E' self' s' = (self1', s1')
       \<and> run_cmd E' s1' [lit ''open'', u'] 60 = ((False, out'), s2')
      \<longrightarrow> ab_crawl lib E' self' s' u' download_images' output_dir' wait_time'
            = (Inl (Exn ''RuntimeError'' (lit ''Failed to open URL: '' @ out')), self1', s2'))"
  using ab_crawl_blocked[of lib u E self s self1 s1 out s2 wait_time page_text s5]
    ab_crawl_open_failed[of lib u' E' self' s' self1' s1' out' s2']
  by (simp add: anti_bot_error_def)

lemma valid_good_url: "ab_is_valid_weixin_url demo_lib good_url = Inr True"
  by (simp add: ab_is_valid_weixin_url_def demo_lib_def demo_netloc_def good_url_def
      startswith_def lit_def)

lemma load_state_demo:
  "ab_load_state (logging_backend answer) \<lparr>state_loaded = False\<rparr> [] = (\<lparr>state_loaded = False\<rparr>, [])"
  by (simp add: ab_load_state_def logging_backend_def)

lemma blocked_body:
  "fst (ab_extract_text demo_lib (logging_backend blocked_answer)
          (ab_wait (logging_backend blocked_answer) [[lit ''open'', good_url]] 10) (lit ''body''))
     = Inr challenge_marker_1"
  by (simp add: ab_crawl_eval blocked_answer_def)

theorem blocked_page_raises_runtime_error_witness:
  "fst (ab_crawl demo_lib (logging_backend blocked_answer) \<lparr>state_loaded = False\<rparr> []
          good_url False None 10) = Inl anti_bot_error
   \<and> py_in challenge_marker_1 challenge_marker_1
   \<and> ab_crawl demo_lib (logging_backend down_answer) \<lparr>state_loaded = False\<rparr> []
          good_url False None 10
       = (Inl (Exn ''RuntimeError'' (lit ''Failed to open URL: Timeout'')),
          \<lparr>state_loaded = False\<rparr>, [[lit ''open'', good_url]])"
proof -
  let ?B = "logging_backend blocked_answer"
  let ?D = "logging_backend down_answer"
  have op: "run_cmd ?B [] [lit ''open'', good_url] 60 = ((True, []), [[lit ''open'', good_url]])"
    by (simp add: logging_backend_def blocked_answer_def good_url_def lit_def)
  obtain s5 where body:
    "ab_extract_text demo_lib ?B (ab_wait ?B [[lit ''open'', good_url]] 10) (lit ''body'')
       = (Inr challenge_marker_1, s5)"
    using blocked_body
    by (cases "ab_extract_text demo_lib ?B (ab_wait ?B [[lit ''open'', good_url]] 10) (lit ''body'')")
       auto
  have m: "py_in challenge_marker_1 challenge_marker_1"
    by (simp add: challenge_marker_1_def startswith_def)
  have dn: "run_cmd ?D [] [lit ''open'', good_url] 60
      = ((False, lit ''Timeout''), [[lit ''open'', good_url]])"
    by (simp add: logging_backend_def down_answer_def)
  show ?thesis
    using valid_good_url load_state_demo[of blocked_answer] load_state_demo[of down_answer]
      op body m dn
      blocked_page_raises_runtime_error [of demo_lib good_url ?B "\<lparr>state_loaded = False\<rparr>" "[]"
        "\<lparr>state_loaded = False\<rparr>" "[]" "[]" "[[lit ''open'', good_url]]" 10 challenge_marker_1 s5
        False None good_url ?D "\<lparr>state_loaded = False\<rparr>" "[]" "\<lparr>state_loaded = False\<rparr>" "[]"
        "lit ''Timeout''" "[[lit ''open'', good_url]]" False None 10]
    by (simp add: lit_def)
qed

text \<open>
  A blocked page and a backend that times out on \<^verbatim>\<open>open\<close>: both crawls raise
  \<^verbatim>\<open>RuntimeError\<close>.
\<close>

theorem blocked_same_kind_as_timeout_counterexample:
  "fst (ab_crawl demo_lib (logging_backend blocked_answer) \<lparr>state_loaded = False\<rparr> []
          good_url False None 10) = Inl anti_bot_error
   \<and> exn_type anti_bot_error = ''RuntimeError''
   \<and> exn_type anti_bot_error \<noteq> ''BlockedError''
   \<and> fst (ab_crawl demo_lib (logging_backend down_answer) \<lparr>state_loaded = False\<rparr> []
            good_url False None 10)
       = Inl (Exn ''RuntimeError'' (lit ''Failed to open URL: Timeout''))
   \<and> exn_type (Exn ''RuntimeError'' (lit ''Failed to open URL: Timeout'')) = exn_type anti_bot_error"
  using blocked_crawl down_crawl by (simp add: anti_bot_error_def)

end
